theory Spec2Isabelle
  imports Complex_Main
begin

section \<open>The compartmental model of \<open>model.py\<close>\<close>

text \<open>
  \<open>SimpleCovidModel\<close> holds a parameter dictionary, the population size, the number of
  days, the initial state, the time grid and the observed deaths. Python's floats are
  taken as real numbers in the derivative, the integration and the fitting: rounding,
  overflow of \<open>np.exp\<close> and the non-finite values that numpy returns for a division by
  \<open>N = 0\<close> are outside that reading, so statements that divide by \<open>N\<close> assume
  \<open>N \<noteq> 0\<close>. Where a property of the two rate functions depends on the rounding of
  doubles, they are read a second time with every operation rounded (below).
\<close>

subsection \<open>Data\<close>

datatype error = KeyError string | IndexError | ValueError

text \<open>
  An entry of the parameter dictionary is a plain number (the dictionary the caller
  builds) or an \<open>lmfit.Parameter\<close> with a value and optional lower and upper bounds
  (\<open>None\<close> is lmfit's infinite bound). In arithmetic both stand for their value.
\<close>

datatype pval = Float real | Parameter real "real option" "real option"

fun val :: "pval \<Rightarrow> real" where
  "val (Float v) = v"
| "val (Parameter v lo hi) = v"

type_synonym paramset = "string \<Rightarrow> pval option"

type_synonym state = "real \<times> real \<times> real \<times> real"

record model =
  self_params :: paramset
  self_N :: real
  self_days :: int
  self_y0 :: state
  self_t :: "real list"
  self_fit_data :: "real list"

subsection \<open>Rate functions and derivative\<close>

definition beta :: "real \<Rightarrow> real \<Rightarrow> real \<Rightarrow> real \<Rightarrow> real" where
  "beta beta_a beta_b beta_k t = beta_k / (1 + exp (beta_a + beta_b * t))"

definition lockdown :: "real \<Rightarrow> real \<Rightarrow> real \<Rightarrow> real" where
  "lockdown a b t = 1 / (1 + exp (a + b * t))"

definition deriv ::
  "model \<Rightarrow> state \<Rightarrow> real \<Rightarrow> real \<Rightarrow> real \<Rightarrow> real \<Rightarrow> real \<Rightarrow> real \<Rightarrow> real \<Rightarrow> real \<Rightarrow> real
     \<Rightarrow> state" where
  "deriv self y t beta_a beta_b beta_k slipthrough lockdown_a lockdown_b gamma rho =
     (let N = self_N self in
      case y of (S, I, R, D) \<Rightarrow>
        let dSdt = - beta beta_a beta_b beta_k t
                     * (lockdown lockdown_a lockdown_b t - slipthrough) * S * I / N;
            dIdt = beta beta_a beta_b beta_k t
                     * (1 + slipthrough - lockdown lockdown_a lockdown_b t) * S * I / N
                   - gamma * I;
            dRdt = (1 - rho) * gamma * I;
            dDdt = rho * gamma * I
        in (dSdt, dIdt, dRdt, dDdt))"

subsection \<open>The rate functions in double precision\<close>

text \<open>
  A Python float is an IEEE double: each of \<open>+\<close>, \<open>*\<close> and \<open>/\<close> returns the double nearest
  to the exact result, a tie going to the even significand. \<open>nearest53\<close> is that rounding
  for significands of 53 bits; the exponent is not bounded, so results that overflow
  (\<open>np.exp\<close> returning \<open>inf\<close>) or underflow are outside this reading. \<open>np.exp\<close> belongs to
  numpy and is a parameter: it maps a double to a double.
\<close>

definition round_even :: "real \<Rightarrow> int" where
  "round_even q =
     (let f = \<lfloor>q\<rfloor>; r = q - of_int f
      in if r < 1 / 2 then f else if 1 / 2 < r then f + 1 else if even f then f else f + 1)"

definition nearest53 :: "real \<Rightarrow> real" where
  "nearest53 x =
     (if x = 0 then 0
      else let e = \<lfloor>log 2 \<bar>x\<bar>\<rfloor> - 52
           in of_int (round_even (x / 2 powr of_int e)) * 2 powr of_int e)"

definition beta_double :: "(real \<Rightarrow> real) \<Rightarrow> real \<Rightarrow> real \<Rightarrow> real \<Rightarrow> real \<Rightarrow> real" where
  "beta_double np_exp beta_a beta_b beta_k t =
     nearest53 (beta_k / nearest53 (1 + np_exp (nearest53 (beta_a + nearest53 (beta_b * t)))))"

definition lockdown_double :: "(real \<Rightarrow> real) \<Rightarrow> real \<Rightarrow> real \<Rightarrow> real \<Rightarrow> real" where
  "lockdown_double np_exp a b t =
     nearest53 (1 / nearest53 (1 + np_exp (nearest53 (a + nearest53 (b * t)))))"

text \<open>
  The doubles that \<open>np.exp\<close> returns at \<open>1.0\<close> (\<open>0x1.5bf0a8b145769p+1\<close>, printed
  \<open>2.718281828459045\<close>) and at \<open>-40.0\<close> (\<open>0x1.39792499b1a24p-58\<close>, printed
  \<open>4.248354255291589e-18\<close>), each as a function for the one evaluation that uses it.
\<close>

definition exp_at_one :: "real \<Rightarrow> real" where
  "exp_at_one x = 6121026514868073 / 2 ^ 51"

definition exp_at_minus_forty :: "real \<Rightarrow> real" where
  "exp_at_minus_forty x = 5514679113423396 / 2 ^ 110"

subsection \<open>The formulas of the specification\<close>

text \<open>
  The two rate functions as the specification writes them, to be compared with \<open>beta\<close>
  and \<open>lockdown\<close> above.
\<close>

definition transmissionRate :: "real \<Rightarrow> real \<Rightarrow> real \<Rightarrow> real \<Rightarrow> real" where
  "transmissionRate beta_a beta_b beta_k t = beta_k / (1 + exp (beta_a + beta_b * t))"

definition interventionIntensity :: "real \<Rightarrow> real \<Rightarrow> real \<Rightarrow> real" where
  "interventionIntensity a b t = 1 / (1 + exp (a + b * t))"

subsection \<open>Errors and dictionary access\<close>

definition bindE :: "error + 'a \<Rightarrow> ('a \<Rightarrow> error + 'b) \<Rightarrow> error + 'b" where
  "bindE r f = (case r of Inl e \<Rightarrow> Inl e | Inr v \<Rightarrow> f v)"

definition getitem :: "paramset \<Rightarrow> string \<Rightarrow> error + pval" where
  "getitem ps k = (case ps k of None \<Rightarrow> Inl (KeyError k) | Some v \<Rightarrow> Inr v)"

subsection \<open>The time grid\<close>

text \<open>
  \<open>np.linspace(start, stop, num)\<close> with its default \<open>endpoint=True\<close>, as numpy computes
  it: a negative \<open>num\<close> raises \<open>ValueError\<close>; the step is \<open>(stop - start) / (num - 1)\<close>
  when \<open>num > 1\<close>; the samples are \<open>start + i * step\<close> for \<open>i < num\<close>; and for
  \<open>num > 1\<close> the last sample is set to \<open>stop\<close>. The samples are exact here; numpy
  rounds the step and each product, so its interior samples are these only where both
  are doubles (as for 2 and 3 points); the first and the last sample are exact in both.
\<close>

definition linspace :: "real \<Rightarrow> real \<Rightarrow> int \<Rightarrow> error + real list" where
  "linspace start stop num =
     (if num < 0 then Inl ValueError
      else let n = nat num; delta = stop - start in
        if n > 1
        then Inr ((map (\<lambda>i. real i * (delta / real (n - 1)) + start) [0..<n])[n - 1 := stop])
        else Inr (map (\<lambda>i. real i * delta + start) [0..<n]))"

definition init :: "real \<Rightarrow> int \<Rightarrow> state \<Rightarrow> paramset \<Rightarrow> real list \<Rightarrow> error + model" where
  "init N days y0 params fit_data =
     bindE (linspace 0 (of_int days) days) (\<lambda>t.
       Inr \<lparr>self_params = params, self_N = N, self_days = days, self_y0 = y0,
            self_t = t, self_fit_data = fit_data\<rparr>)"

subsection \<open>The external integrator and least-squares solver\<close>

text \<open>
  \<open>scipy.integrate.odeint\<close> and \<open>lmfit\<close> are not part of the repository: they are
  parameters of the model. \<open>odeint\<close> takes the derivative (with its extra arguments
  already applied), the initial state and the time grid and returns one state per row.
  An \<open>lmfit.Model\<close> is the wrapped function, called with the independent variable and a
  value for each parameter name, together with those names. \<open>model_fit\<close> is
  \<open>Model.fit(data, params, x=..., **kwargs)\<close> and returns \<open>result.params\<close>;
  lmfit works on a deep copy of the \<open>params\<close> it is given, so the caller's object is
  the same after the call. The printed fit report is left out.
\<close>

datatype model_output = Scalar real | Series "real list"

record lmfit_Model =
  func :: "real list \<Rightarrow> (string \<Rightarrow> real) \<Rightarrow> error + model_output"
  param_names :: "string list"

record library =
  odeint :: "(state \<Rightarrow> real \<Rightarrow> state) \<Rightarrow> state \<Rightarrow> real list \<Rightarrow> state list"
  make_params :: "lmfit_Model \<Rightarrow> paramset"
  model_fit ::
    "lmfit_Model \<Rightarrow> real list \<Rightarrow> paramset \<Rightarrow> real list \<Rightarrow> paramset \<Rightarrow> error + paramset"

text \<open>\<open>ret.T\<close> of an array with one state per row: one sequence per compartment.\<close>

definition transposed :: "state list \<Rightarrow> real list \<times> real list \<times> real list \<times> real list" where
  "transposed ret =
     (map (\<lambda>(S, I, R, D). S) ret, map (\<lambda>(S, I, R, D). I) ret,
      map (\<lambda>(S, I, R, D). R) ret, map (\<lambda>(S, I, R, D). D) ret)"

definition row3 :: "real list \<times> real list \<times> real list \<times> real list \<Rightarrow> real list" where
  "row3 rows = (case rows of (r0, r1, r2, r3) \<Rightarrow> r3)"

text \<open>\<open>xs[-1]\<close>: the last element, \<open>IndexError\<close> on an empty sequence.\<close>

definition last_item :: "real list \<Rightarrow> error + real" where
  "last_item xs = (if xs = [] then Inl IndexError else Inr (last xs))"

subsection \<open>Calibration\<close>

definition fitter ::
  "library \<Rightarrow> model \<Rightarrow> real list \<Rightarrow> real \<Rightarrow> real \<Rightarrow> real \<Rightarrow> real \<Rightarrow> real \<Rightarrow> real \<Rightarrow> real \<Rightarrow> real
     \<Rightarrow> real list" where
  "fitter lib self x beta_a beta_b beta_k slipthrough lockdown_a lockdown_b gamma rho =
     (let ret = odeint lib
            (\<lambda>y t. deriv self y t beta_a beta_b beta_k slipthrough lockdown_a lockdown_b
                      gamma rho)
            (self_y0 self) (self_t self)
      in row3 (transposed ret))"

definition Model_fitter :: "library \<Rightarrow> model \<Rightarrow> lmfit_Model" where
  "Model_fitter lib self =
     \<lparr>func = (\<lambda>x c. Inr (Series (fitter lib self x (c ''beta_a'') (c ''beta_b'')
                (c ''beta_k'') (c ''slipthrough'') (c ''lockdown_a'') (c ''lockdown_b'')
                (c ''gamma'') (c ''rho'')))),
      param_names = [''beta_a'', ''beta_b'', ''beta_k'', ''slipthrough'', ''lockdown_a'',
                     ''lockdown_b'', ''gamma'', ''rho'']\<rparr>"

definition fit :: "library \<Rightarrow> model \<Rightarrow> error + model" where
  "fit lib self =
     (let mod' = Model_fitter lib self;
          params = make_params lib mod';
          x_data = self_t self;
          y_data = self_fit_data self
      in bindE (getitem (self_params self) ''beta_a'') (\<lambda>beta_a.
         bindE (getitem (self_params self) ''beta_b'') (\<lambda>beta_b.
         bindE (getitem (self_params self) ''beta_k'') (\<lambda>beta_k.
         bindE (getitem (self_params self) ''slipthrough'') (\<lambda>slipthrough.
         bindE (getitem (self_params self) ''lockdown_a'') (\<lambda>lockdown_a.
         bindE (getitem (self_params self) ''lockdown_b'') (\<lambda>lockdown_b.
         bindE (getitem (self_params self) ''gamma'') (\<lambda>gamma.
         bindE (getitem (self_params self) ''rho'') (\<lambda>rho.
         bindE (model_fit lib mod' y_data params x_data
                  [''beta_a'' \<mapsto> beta_a, ''beta_b'' \<mapsto> beta_b, ''beta_k'' \<mapsto> beta_k,
                   ''slipthrough'' \<mapsto> slipthrough, ''lockdown_a'' \<mapsto> lockdown_a,
                   ''lockdown_b'' \<mapsto> lockdown_b, ''gamma'' \<mapsto> gamma, ''rho'' \<mapsto> rho])
           (\<lambda>result_params. Inr (self\<lparr>self_params := result_params\<rparr>)))))))))))"

subsection \<open>Intervention optimization\<close>

definition optimizer :: "library \<Rightarrow> model \<Rightarrow> real list \<Rightarrow> real \<Rightarrow> real \<Rightarrow> error + real" where
  "optimizer lib self x lockdown_a lockdown_b =
     bindE (getitem (self_params self) ''beta_a'') (\<lambda>beta_a.
     bindE (getitem (self_params self) ''beta_b'') (\<lambda>beta_b.
     bindE (getitem (self_params self) ''beta_k'') (\<lambda>beta_k.
     bindE (getitem (self_params self) ''slipthrough'') (\<lambda>slipthrough.
     bindE (getitem (self_params self) ''gamma'') (\<lambda>gamma.
     bindE (getitem (self_params self) ''rho'') (\<lambda>rho.
       let ret = odeint lib
             (\<lambda>y t. deriv self y t (val beta_a) (val beta_b) (val beta_k) (val slipthrough)
                       lockdown_a lockdown_b (val gamma) (val rho))
             (self_y0 self) (self_t self);
           totaldeaths = last_item (row3 (transposed ret))
       in totaldeaths))))))"

definition Model_optimizer :: "library \<Rightarrow> model \<Rightarrow> lmfit_Model" where
  "Model_optimizer lib self =
     \<lparr>func = (\<lambda>x c. bindE (optimizer lib self x (c ''lockdown_a'') (c ''lockdown_b''))
                       (\<lambda>d. Inr (Scalar d))),
      param_names = [''lockdown_a'', ''lockdown_b'']\<rparr>"

definition optimize :: "library \<Rightarrow> model \<Rightarrow> error + model" where
  "optimize lib self =
     (let mod' = Model_optimizer lib self;
          params = [''lockdown_a'' \<mapsto> Parameter (2 / 10) (Some 0) (Some 1),
                    ''lockdown_b'' \<mapsto> Parameter (2 / 10) (Some 0) (Some 1)];
          x_data = self_t self;
          y_data = self_fit_data self
      in bindE (getitem (self_params self) ''lockdown_a'') (\<lambda>lockdown_a.
         bindE (getitem (self_params self) ''lockdown_b'') (\<lambda>lockdown_b.
         bindE (model_fit lib mod' y_data params x_data
                  [''lockdown_a'' \<mapsto> lockdown_a, ''lockdown_b'' \<mapsto> lockdown_b])
           (\<lambda>result_params.
         bindE (getitem params ''lockdown_a'') (\<lambda>pa.
         bindE (getitem params ''lockdown_b'') (\<lambda>pb.
           Inr (self\<lparr>self_params :=
                  (self_params self)(''lockdown_a'' \<mapsto> pa, ''lockdown_b'' \<mapsto> pb)\<rparr>)))))))"

subsection \<open>Population total\<close>

definition total :: "state \<Rightarrow> real" where
  "total y = (case y of (S, I, R, D) \<Rightarrow> S + I + R + D)"

subsection \<open>A concrete library\<close>

text \<open>
  To run the model on concrete inputs: an explicit Euler integrator over the time grid,
  and a solver that makes no iteration and answers \<open>answer\<close> for every parameter of the
  model it is given.
\<close>

definition euler_step :: "(state \<Rightarrow> real \<Rightarrow> state) \<Rightarrow> state \<Rightarrow> real \<Rightarrow> real \<Rightarrow> state" where
  "euler_step f y t0 t1 =
     (case (y, f y t0) of ((S, I, R, D), (dS, dI, dR, dD)) \<Rightarrow>
        (S + (t1 - t0) * dS, I + (t1 - t0) * dI, R + (t1 - t0) * dR, D + (t1 - t0) * dD))"

fun euler_from :: "(state \<Rightarrow> real \<Rightarrow> state) \<Rightarrow> state \<Rightarrow> real \<Rightarrow> real list \<Rightarrow> state list" where
  "euler_from f y t0 [] = []"
| "euler_from f y t0 (t1 # ts) = euler_step f y t0 t1 # euler_from f (euler_step f y t0 t1) t1 ts"

fun euler :: "(state \<Rightarrow> real \<Rightarrow> state) \<Rightarrow> state \<Rightarrow> real list \<Rightarrow> state list" where
  "euler f y0 [] = []"
| "euler f y0 (t0 # ts) = y0 # euler_from f y0 t0 ts"

definition constant_solver :: "real \<Rightarrow> library" where
  "constant_solver answer =
     \<lparr>odeint = euler,
      make_params = (\<lambda>m k. if k \<in> set (param_names m) then Some (Parameter 0 None None) else None),
      model_fit = (\<lambda>m data params x kwargs.
         Inr (\<lambda>k. if k \<in> set (param_names m) then Some (Parameter answer None None) else None))\<rparr>"

definition example_params :: paramset where
  "example_params =
     [''beta_a'' \<mapsto> Float 0, ''beta_b'' \<mapsto> Float 0, ''beta_k'' \<mapsto> Float (4 / 10),
      ''slipthrough'' \<mapsto> Float (1 / 10), ''lockdown_a'' \<mapsto> Float 0, ''lockdown_b'' \<mapsto> Float 0,
      ''gamma'' \<mapsto> Float (1 / 10), ''rho'' \<mapsto> Float (2 / 100)]"

definition example_model :: model where
  "example_model =
     \<lparr>self_params = example_params, self_N = 1000, self_days = 2, self_y0 = (999, 1, 0, 0),
      self_t = [0, 2], self_fit_data = [0, 1]\<rparr>"

section \<open>Rate functions\<close>

lemma rate_defs_agree:
  "beta = transmissionRate" "lockdown = interventionIntensity"
  by (simp_all add: fun_eq_iff beta_def lockdown_def transmissionRate_def interventionIntensity_def)

lemma affine_at_top:
  assumes "0 < (b::real)"
  shows "LIM t at_top. a + b * t :> at_top"
  by (intro filterlim_tendsto_add_at_top [OF tendsto_const]
        filterlim_tendsto_pos_mult_at_top [OF tendsto_const assms] filterlim_ident)

lemma affine_at_bot:
  assumes "0 < (b::real)"
  shows "LIM t at_bot. a + b * t :> at_bot"
proof -
  have "LIM t at_top. - a + b * t :> at_top"
    using assms by (rule affine_at_top)
  then have "LIM t at_top. - (a + b * (- t)) :> at_top"
    by simp
  then have "LIM t at_top. a + b * (- t) :> at_bot"
    by (simp add: filterlim_uminus_at_top)
  then show ?thesis
    by (subst filterlim_at_bot_mirror)
qed

lemma lockdown_at_top:
  assumes "0 < b"
  shows "((\<lambda>t. lockdown a b t) \<longlongrightarrow> 0) at_top"
proof -
  have "LIM t at_top. exp (a + b * t) :> at_top"
    by (rule filterlim_compose [OF exp_at_top affine_at_top [OF assms]])
  then have "LIM t at_top. 1 + exp (a + b * t) :> at_top"
    by (rule filterlim_tendsto_add_at_top [OF tendsto_const])
  then have "((\<lambda>t. inverse (1 + exp (a + b * t))) \<longlongrightarrow> 0) at_top"
    by (rule tendsto_inverse_0_at_top)
  then show ?thesis
    by (simp add: lockdown_def inverse_eq_divide)
qed

lemma lockdown_at_bot:
  assumes "0 < b"
  shows "((\<lambda>t. lockdown a b t) \<longlongrightarrow> 1) at_bot"
proof -
  have "((\<lambda>t. exp (a + b * t)) \<longlongrightarrow> 0) at_bot"
    by (rule filterlim_compose [OF exp_at_bot affine_at_bot [OF assms]])
  then have "((\<lambda>t. 1 + exp (a + b * t)) \<longlongrightarrow> 1 + 0) at_bot"
    by (intro tendsto_add tendsto_const)
  then have "((\<lambda>t. 1 / (1 + exp (a + b * t))) \<longlongrightarrow> 1 / (1 + 0)) at_bot"
    by (intro tendsto_divide tendsto_const) simp_all
  then show ?thesis
    by (simp add: lockdown_def)
qed

lemma exp_denominator: "1 \<le> 1 + exp (x::real)" "0 < 1 + exp (x::real)"
  by (simp_all add: add_pos_pos)

lemma lockdown_unit_interval: "0 \<le> lockdown a b t \<and> lockdown a b t \<le> 1"
  using exp_denominator [of "a + b * t"] by (simp add: lockdown_def)

lemma beta_between:
  assumes "0 \<le> k"
  shows "0 \<le> beta a b k t \<and> beta a b k t \<le> k"
proof -
  have "k / (1 + exp (a + b * t)) \<le> k / 1"
    using assms exp_denominator [of "a + b * t"] by (intro divide_left_mono) auto
  moreover have "0 \<le> k / (1 + exp (a + b * t))"
    using assms exp_denominator [of "a + b * t"] by simp
  ultimately show ?thesis
    by (simp add: beta_def)
qed

text \<open>
  C7, as stated, asks for \<open>beta a b k t\<close> to lie in \<open>[0, k]\<close> for all parameters. With a
  negative \<open>k\<close> the interval is empty and the rate is negative: at \<open>k = -1\<close> and
  \<open>a = b = 0\<close> it is \<open>-1/2\<close>.
\<close>

theorem beta_negative_counterexample:
  "beta 0 0 (- 1) 0 = - 1 / 2 \<and> \<not> (0 \<le> beta 0 0 (- 1) 0 \<and> beta 0 0 (- 1) 0 \<le> - 1)"
  by (simp add: beta_def)

text \<open>
  C7, amended. For every \<open>k \<ge> 0\<close> and every time \<open>t\<close> the transmission rate lies in
  \<open>[0, k]\<close>; for all parameters the intervention intensity lies in the closed interval
  \<open>[0, 1]\<close>; and for \<open>b > 0\<close> it tends to 1 as \<open>t\<close> goes to minus infinity and to 0 as
  \<open>t\<close> goes to plus infinity.
\<close>

theorem rate_bounds:
  "(0 \<le> k \<longrightarrow> 0 \<le> beta a b k t \<and> beta a b k t \<le> k)
   \<and> 0 \<le> lockdown la lb t \<and> lockdown la lb t \<le> 1
   \<and> (0 < lb \<longrightarrow> ((\<lambda>t. lockdown la lb t) \<longlongrightarrow> 1) at_bot
                  \<and> ((\<lambda>t. lockdown la lb t) \<longlongrightarrow> 0) at_top)"
  using beta_between lockdown_unit_interval lockdown_at_bot lockdown_at_top by blast

text \<open>
  The amended C7 at \<open>k = 4/10\<close>, \<open>t = 3\<close> and the intensity curve with \<open>a = 0\<close>, \<open>b = 1\<close>.
\<close>

theorem rate_bounds_witness:
  "0 \<le> (4 / 10 :: real) \<and> 0 < (1::real)
   \<and> 0 \<le> beta 0 0 (4 / 10) 3 \<and> beta 0 0 (4 / 10) 3 \<le> 4 / 10
   \<and> ((\<lambda>t. lockdown 0 1 t) \<longlongrightarrow> 1) at_bot \<and> ((\<lambda>t. lockdown 0 1 t) \<longlongrightarrow> 0) at_top"
  using rate_bounds [of "4 / 10" 0 0 3 0 1] by simp

subsection \<open>Rounding\<close>

lemma round_even_err: "\<bar>of_int (round_even q) - q\<bar> \<le> 1 / 2"
  unfolding round_even_def Let_def by (auto simp: abs_le_iff)

lemma floor_log2:
  assumes "2 ^ 52 \<le> \<bar>q\<bar>" "\<bar>q\<bar> < 2 ^ 53"
  shows "\<lfloor>log 2 \<bar>q * 2 powr of_int e\<bar>\<rfloor> = 52 + e"
proof -
  have q: "0 < \<bar>q\<bar>" using assms(1) by (smt (verit) zero_less_power)
  have "log 2 \<bar>q * 2 powr of_int e\<bar> = log 2 \<bar>q\<bar> + of_int e"
    using q by (simp add: abs_mult log_mult)
  moreover have "52 \<le> log 2 \<bar>q\<bar>"
    using assms(1) q by (simp add: le_log_iff powr_realpow)
  moreover have "log 2 \<bar>q\<bar> < 53"
    using assms(2) q by (simp add: log_less_iff powr_realpow)
  ultimately show ?thesis
    by (simp add: floor_eq_iff)
qed

lemma nearest53_eval:
  assumes "2 ^ 52 \<le> \<bar>q\<bar>" "\<bar>q\<bar> < 2 ^ 53"
  shows "nearest53 (q * 2 powr of_int e) = of_int (round_even q) * 2 powr of_int e"
proof -
  have "q \<noteq> 0" using assms(1) by auto
  then show ?thesis
    by (simp add: nearest53_def floor_log2 [OF assms] Let_def)
qed

lemma nearest53_err: "\<bar>nearest53 x - x\<bar> \<le> \<bar>x\<bar> / 2 ^ 53"
proof (cases "x = 0")
  case True
  then show ?thesis by (simp add: nearest53_def)
next
  case False
  define L where "L = \<lfloor>log 2 \<bar>x\<bar>\<rfloor>"
  define s :: real where "s = 2 powr of_int (L - 52)"
  have s: "0 < s" by (simp add: s_def)
  have "of_int L \<le> log 2 \<bar>x\<bar>" by (simp add: L_def)
  then have low: "2 powr of_int L \<le> \<bar>x\<bar>"
    using False by (simp add: le_log_iff)
  have "s * 2 ^ 52 = 2 powr of_int L"
    by (simp add: s_def powr_diff powr_realpow [symmetric])
  then have sx: "s * 2 ^ 52 \<le> \<bar>x\<bar>" using low by simp
  have "nearest53 x - x = (of_int (round_even (x / s)) - x / s) * s"
    using False s by (simp add: nearest53_def L_def s_def Let_def algebra_simps)
  then have "\<bar>nearest53 x - x\<bar> = \<bar>of_int (round_even (x / s)) - x / s\<bar> * s"
    using s by (simp add: abs_mult)
  also have "\<dots> \<le> 1 / 2 * s"
    using s round_even_err [of "x / s"] by (intro mult_right_mono) auto
  also have "\<dots> = s * 2 ^ 52 / 2 ^ 53" by simp
  also have "\<dots> \<le> \<bar>x\<bar> / 2 ^ 53"
    using sx by (intro divide_right_mono) auto
  finally show ?thesis .
qed

lemma nearest53_scaled:
  assumes "2 ^ 52 \<le> \<bar>q\<bar>" "\<bar>q\<bar> < 2 ^ 53"
  shows "nearest53 (q / 2 ^ n) = of_int (round_even q) / 2 ^ n"
proof -
  have "2 powr of_int (- int n) = 1 / (2::real) ^ n"
    by (simp add: powr_minus powr_realpow inverse_eq_divide)
  then show ?thesis
    using nearest53_eval [OF assms, of "- int n"] by simp
qed

lemma nearest53_zero: "nearest53 0 = 0"
  by (simp add: nearest53_def)

lemma nearest53_one: "nearest53 1 = 1"
  using nearest53_scaled [of "2 ^ 52" 52] by (simp add: round_even_def)

text \<open>
  The end point 1 of the interval is reached: in doubles \<open>1 + exp(-40)\<close> rounds
  to 1, so the intensity at \<open>a = 0\<close>, \<open>b = 1\<close>, \<open>t = -40\<close> is exactly 1.
\<close>

lemma lockdown_double_reaches_one: "lockdown_double exp_at_minus_forty 0 1 (- 40) = 1"
proof -
  define q :: real where "q = 2 ^ 52 + 5514679113423396 / 2 ^ 58"
  have x: "1 + exp_at_minus_forty y = q / 2 ^ 52" for y
    by (simp add: q_def exp_at_minus_forty_def)
  have "round_even q = 2 ^ 52"
    by (simp add: q_def round_even_def Let_def)
  moreover have "2 ^ 52 \<le> \<bar>q\<bar>" "\<bar>q\<bar> < 2 ^ 53"
    by (simp_all add: q_def)
  ultimately have "nearest53 (q / 2 ^ 52) = 1"
    using nearest53_scaled [of q 52] by simp
  then show ?thesis
    by (simp only: lockdown_double_def x div_by_1 nearest53_one)
qed

text \<open>
  In exact arithmetic \<open>k / x\<close> and \<open>k * (1 / x)\<close> are one number.
\<close>

lemma beta_scales_lockdown_exact: "beta a b k t = k * lockdown a b t"
  by (simp add: beta_def lockdown_def)

lemma denominator_at_one:
  "nearest53 (1 + exp_at_one (nearest53 (1 + nearest53 (1 / 2 * 0)))) = 8372826328553321 / 2 ^ 51"
proof -
  have s: "1 + exp_at_one y = 8372826328553321 / 2 ^ 51" for y
    by (simp add: exp_at_one_def)
  have "nearest53 (8372826328553321 / 2 ^ 51) = 8372826328553321 / 2 ^ 51"
    using nearest53_scaled [of 8372826328553321 51] by (simp add: round_even_def)
  then show ?thesis
    by (simp only: s)
qed

lemma quotient_at_one:
  "nearest53 ((7205759403792794 / 2 ^ 54) / (8372826328553321 / 2 ^ 51)) = 7751708704424971 / 2 ^ 56"
proof -
  define q :: real where "q = 7205759403792794 * 2 ^ 53 / 8372826328553321"
  have x: "(7205759403792794 / 2 ^ 54) / (8372826328553321 / 2 ^ 51) = q / 2 ^ 56"
    by (simp add: q_def)
  have "round_even q = 7751708704424971"
    by (simp add: q_def round_even_def Let_def)
  moreover have "2 ^ 52 \<le> \<bar>q\<bar>" "\<bar>q\<bar> < 2 ^ 53"
    by (simp_all add: q_def)
  ultimately show ?thesis
    unfolding x using nearest53_scaled [of q 56] by simp
qed

lemma reciprocal_at_one:
  "nearest53 (1 / (8372826328553321 / 2 ^ 51)) = 4844817940265606 / 2 ^ 54"
proof -
  define q :: real where "q = 2 ^ 105 / 8372826328553321"
  have x: "1 / (8372826328553321 / 2 ^ 51) = q / 2 ^ 54"
    by (simp add: q_def)
  have "round_even q = 4844817940265606"
    by (simp add: q_def round_even_def Let_def)
  moreover have "2 ^ 52 \<le> \<bar>q\<bar>" "\<bar>q\<bar> < 2 ^ 53"
    by (simp_all add: q_def)
  ultimately show ?thesis
    unfolding x using nearest53_scaled [of q 54] by simp
qed

lemma product_at_one:
  "nearest53 ((7205759403792794 / 2 ^ 54) * (4844817940265606 / 2 ^ 54)) = 7751708704424970 / 2 ^ 56"
proof -
  define q :: real where "q = 7205759403792794 * 4844817940265606 / 2 ^ 52"
  have x: "(7205759403792794 / 2 ^ 54) * (4844817940265606 / 2 ^ 54) = q / 2 ^ 56"
    by (simp add: q_def)
  have "round_even q = 7751708704424970"
    by (simp add: q_def round_even_def Let_def)
  moreover have "2 ^ 52 \<le> \<bar>q\<bar>" "\<bar>q\<bar> < 2 ^ 53"
    by (simp_all add: q_def)
  ultimately show ?thesis
    unfolding x using nearest53_scaled [of q 56] by simp
qed

text \<open>
  C10, as stated, asks for \<open>beta a b k t\<close> and \<open>k * lockdown a b t\<close> to be equal for all
  parameters. In doubles, at \<open>a = 1\<close>, \<open>b = 0.5\<close>, \<open>k = 0.4\<close> (the double
  \<open>7205759403792794 / 2^54\<close>) and \<open>t = 0\<close>, the first is \<open>7751708704424971 / 2^56\<close>
  (printed \<open>0.10757656854799806\<close>) and the second \<open>7751708704424970 / 2^56\<close> (printed
  \<open>0.10757656854799805\<close>).
\<close>

theorem beta_lockdown_double_counterexample:
  "beta_double exp_at_one 1 (1 / 2) (7205759403792794 / 2 ^ 54) 0 = 7751708704424971 / 2 ^ 56
   \<and> nearest53 ((7205759403792794 / 2 ^ 54) * lockdown_double exp_at_one 1 (1 / 2) 0)
       = 7751708704424970 / 2 ^ 56
   \<and> beta_double exp_at_one 1 (1 / 2) (7205759403792794 / 2 ^ 54) 0
       \<noteq> nearest53 ((7205759403792794 / 2 ^ 54) * lockdown_double exp_at_one 1 (1 / 2) 0)"
proof -
  have b: "beta_double exp_at_one 1 (1 / 2) (7205759403792794 / 2 ^ 54) 0
      = 7751708704424971 / 2 ^ 56"
    unfolding beta_double_def denominator_at_one by (rule quotient_at_one)
  have l: "nearest53 ((7205759403792794 / 2 ^ 54) * lockdown_double exp_at_one 1 (1 / 2) 0)
      = 7751708704424970 / 2 ^ 56"
    unfolding lockdown_double_def denominator_at_one
    by (simp only: reciprocal_at_one product_at_one)
  show ?thesis
    unfolding b l by simp
qed

lemma double_gap:
  "\<bar>nearest53 (k / x) - nearest53 (k * nearest53 (1 / x))\<bar> \<le> \<bar>nearest53 (k / x)\<bar> / 2 ^ 51"
proof -
  define u :: real where "u = 1 / 2 ^ 53"
  define B where "B = k / x"
  define bd where "bd = nearest53 B"
  define l where "l = nearest53 (1 / x)"
  define p where "p = nearest53 (k * l)"
  have u: "0 < u" "u \<le> 1 / 5" by (simp_all add: u_def)
  have e1: "\<bar>bd - B\<bar> \<le> u * \<bar>B\<bar>"
    using nearest53_err [of B] by (simp add: bd_def u_def)
  have "\<bar>l - 1 / x\<bar> \<le> u * \<bar>1 / x\<bar>"
    using nearest53_err [of "1 / x"] by (simp add: l_def u_def)
  then have "\<bar>k\<bar> * \<bar>l - 1 / x\<bar> \<le> \<bar>k\<bar> * (u * \<bar>1 / x\<bar>)"
    by (intro mult_left_mono) auto
  moreover have "\<bar>k\<bar> * \<bar>l - 1 / x\<bar> = \<bar>k * l - B\<bar>"
    by (simp add: B_def abs_mult [symmetric] algebra_simps)
  moreover have "\<bar>k\<bar> * (u * \<bar>1 / x\<bar>) = u * \<bar>B\<bar>"
    by (simp add: B_def abs_mult abs_divide)
  ultimately have e2: "\<bar>k * l - B\<bar> \<le> u * \<bar>B\<bar>"
    by simp
  have e3: "\<bar>p - k * l\<bar> \<le> u * \<bar>k * l\<bar>"
    using nearest53_err [of "k * l"] by (simp add: p_def u_def)
  have kl: "\<bar>k * l\<bar> \<le> \<bar>B\<bar> + u * \<bar>B\<bar>"
    using e2 by linarith
  have "u * \<bar>k * l\<bar> \<le> u * (\<bar>B\<bar> + u * \<bar>B\<bar>)"
    using kl u(1) by (intro mult_left_mono) auto
  with e3 have e3': "\<bar>p - k * l\<bar> \<le> u * (\<bar>B\<bar> + u * \<bar>B\<bar>)"
    by linarith
  have "\<bar>bd - p\<bar> \<le> u * \<bar>B\<bar> + u * \<bar>B\<bar> + u * (\<bar>B\<bar> + u * \<bar>B\<bar>)"
    using e1 e2 e3' by linarith
  also have "\<dots> = (3 * u + u * u) * \<bar>B\<bar>"
    by (simp add: algebra_simps)
  finally have total: "\<bar>bd - p\<bar> \<le> (3 * u + u * u) * \<bar>B\<bar>" .
  have "\<bar>B\<bar> - u * \<bar>B\<bar> \<le> \<bar>bd\<bar>"
    using e1 by linarith
  then have Bb: "(1 - u) * \<bar>B\<bar> \<le> \<bar>bd\<bar>"
    by (simp add: algebra_simps)
  have "3 * u + u * u \<le> 4 * u * (1 - u)"
    by (simp add: u_def)
  then have "(3 * u + u * u) * \<bar>B\<bar> \<le> 4 * u * (1 - u) * \<bar>B\<bar>"
    by (intro mult_right_mono) auto
  also have "\<dots> = 4 * u * ((1 - u) * \<bar>B\<bar>)" by simp
  also have "\<dots> \<le> 4 * u * \<bar>bd\<bar>"
    using Bb u(1) by (intro mult_left_mono) auto
  finally have "\<bar>bd - p\<bar> \<le> 4 * u * \<bar>bd\<bar>"
    using total by linarith
  then show ?thesis
    by (simp add: bd_def p_def l_def B_def u_def)
qed

text \<open>
  C10, amended. For all parameters and every time, and whatever \<open>np.exp\<close> returns, the
  transmission rate and \<open>k\<close> times the intervention intensity, both computed in doubles,
  differ by at most the magnitude of the transmission rate divided by \<open>2^51\<close>.
\<close>

theorem beta_lockdown_double_gap:
  "\<bar>beta_double np_exp a b k t - nearest53 (k * lockdown_double np_exp a b t)\<bar>
     \<le> \<bar>beta_double np_exp a b k t\<bar> / 2 ^ 51"
  unfolding beta_double_def lockdown_double_def by (rule double_gap)

section \<open>The derivative\<close>

text \<open>
  C1. For every state \<open>(S, I, R, D)\<close>, time \<open>t\<close> and the eight parameters, and a
  population size \<open>N \<noteq> 0\<close>, \<open>deriv\<close> returns the four rates of the specification:
  \<open>dS/dt = -beta(t) * (lockdown(t) - slipthrough) * S * I / N\<close>,
  \<open>dI/dt = beta(t) * (1 + slipthrough - lockdown(t)) * S * I / N - gamma * I\<close>,
  \<open>dR/dt = (1 - rho) * gamma * I\<close> and \<open>dD/dt = rho * gamma * I\<close>, with
  \<open>beta(t) = transmissionRate beta_a beta_b beta_k t\<close> and
  \<open>lockdown(t) = interventionIntensity lockdown_a lockdown_b t\<close>.
\<close>

theorem deriv_formulas:
  assumes "self_N self \<noteq> 0"
  shows "deriv self (S, I, R, D) t beta_a beta_b beta_k slipthrough lockdown_a lockdown_b gamma rho =
     (- transmissionRate beta_a beta_b beta_k t
          * (interventionIntensity lockdown_a lockdown_b t - slipthrough) * S * I / self_N self,
      transmissionRate beta_a beta_b beta_k t
          * (1 + slipthrough - interventionIntensity lockdown_a lockdown_b t) * S * I / self_N self
        - gamma * I,
      (1 - rho) * gamma * I,
      rho * gamma * I)"
  by (simp add: deriv_def Let_def beta_def lockdown_def transmissionRate_def interventionIntensity_def)

text \<open>
  C1 at the initial state \<open>(999, 1, 0, 0)\<close> of a population of 1000, with
  \<open>beta_k = 4/10\<close>, \<open>gamma = 1/10\<close>, \<open>rho = 2/100\<close> and the other parameters 0.
\<close>

theorem deriv_formulas_witness:
  "self_N example_model \<noteq> 0 \<and>
   deriv example_model (999, 1, 0, 0) 0 0 0 (4 / 10) 0 0 0 (1 / 10) (2 / 100) =
     (- (999 / 10000), 999 / 10000 - 1 / 10, 98 / 1000, 2 / 1000)"
  using deriv_formulas [of example_model 999 1 0 0 0 0 0 "4 / 10" 0 0 0 "1 / 10" "2 / 100"]
  by (simp add: example_model_def transmissionRate_def interventionIntensity_def)

text \<open>
  The four rates add up to the difference between the inflow of \<open>I\<close> and the outflow
  of \<open>S\<close>: the removal terms cancel, the two infection terms do not, because one carries
  the factor \<open>lockdown(t) - slipthrough\<close> and the other \<open>1 + slipthrough - lockdown(t)\<close>.
\<close>

lemma deriv_total:
  "total (deriv self (S, I, R, D) t beta_a beta_b beta_k slipthrough lockdown_a lockdown_b gamma rho) =
     beta beta_a beta_b beta_k t * (1 + 2 * slipthrough - 2 * lockdown lockdown_a lockdown_b t)
       * S * I / self_N self"
proof -
  define b where "b = beta beta_a beta_b beta_k t"
  define l where "l = lockdown lockdown_a lockdown_b t"
  define X where "X = - b * (l - slipthrough) * S * I"
  define Y where "Y = b * (1 + slipthrough - l) * S * I"
  have "total (deriv self (S, I, R, D) t beta_a beta_b beta_k slipthrough lockdown_a lockdown_b gamma rho)
      = X / self_N self + (Y / self_N self - gamma * I) + (1 - rho) * gamma * I + rho * gamma * I"
    by (simp add: deriv_def Let_def total_def b_def l_def X_def Y_def)
  also have "\<dots> = X / self_N self + Y / self_N self"
    by (simp add: algebra_simps)
  also have "\<dots> = (X + Y) / self_N self"
    by (simp add: add_divide_distrib)
  also have "X + Y = b * (1 + 2 * slipthrough - 2 * l) * S * I"
    by (simp add: X_def Y_def algebra_simps)
  finally show ?thesis
    by (simp add: b_def l_def)
qed

text \<open>
  C2 asks for the four rates to add up to zero at every state, time and parameter set.
  At the state \<open>(999, 1, 0, 0)\<close> of a population of 1000, time 0, with \<open>beta_k = 4/10\<close>,
  \<open>slipthrough = 1/10\<close>, \<open>gamma = 1/10\<close>, \<open>rho = 2/100\<close> and the other parameters 0, they
  add up to \<open>3996/100000\<close>: the population is not conserved.
\<close>

theorem deriv_total_not_zero:
  "total (deriv example_model (999, 1, 0, 0) 0 0 0 (4 / 10) (1 / 10) 0 0 (1 / 10) (2 / 100)) = 3996 / 100000"
  by (simp add: deriv_def Let_def total_def beta_def lockdown_def example_model_def)

text \<open>
  C9. Whenever \<open>gamma \<ge> 0\<close>, \<open>rho \<ge> 0\<close> and \<open>I \<ge> 0\<close>, the rate \<open>dD/dt\<close> that \<open>deriv\<close>
  returns is non-negative, at every state and time. Both terms of \<open>dI/dt\<close> carry the
  factor \<open>I\<close>, so \<open>dI/dt\<close> is 0 at \<open>I = 0\<close>.
\<close>

theorem dead_rate_nonneg:
  assumes "0 \<le> gamma" "0 \<le> rho" "0 \<le> I"
    and "deriv self (S, I, R, D) t beta_a beta_b beta_k slipthrough lockdown_a lockdown_b gamma rho = (dS, dI, dR, dD)"
  shows "0 \<le> dD \<and>
    (self_N self \<noteq> 0 \<longrightarrow> dI = I * (beta beta_a beta_b beta_k t * (1 + slipthrough - lockdown lockdown_a lockdown_b t) * S / self_N self - gamma)) \<and>
    (I = 0 \<longrightarrow> dI = 0)"
  using assms by (auto simp add: deriv_def Let_def algebra_simps)

text \<open>
  C9 at the state \<open>(999, 1, 0, 0)\<close> with \<open>gamma = 1/10\<close> and \<open>rho = 2/100\<close>.
\<close>

theorem dead_rate_nonneg_witness:
  "(0::real) \<le> 1 / 10 \<and> (0::real) \<le> 2 / 100 \<and> (0::real) \<le> 1 \<and> self_N example_model \<noteq> 0
   \<and> deriv example_model (999, 1, 0, 0) 0 0 0 (4 / 10) (1 / 10) 0 0 (1 / 10) (2 / 100)
       = (- (7992 / 100000), 1988 / 100000, 98 / 1000, 2 / 1000)
   \<and> (0::real) \<le> 2 / 1000"
proof -
  have d: "deriv example_model (999, 1, 0, 0) 0 0 0 (4 / 10) (1 / 10) 0 0 (1 / 10) (2 / 100)
       = (- (7992 / 100000), 1988 / 100000, 98 / 1000, 2 / 1000)"
    by (simp add: deriv_def Let_def beta_def lockdown_def example_model_def)
  have "(0::real) \<le> 2 / 1000"
    using dead_rate_nonneg [OF _ _ _ d] by simp
  with d show ?thesis
    by (simp add: example_model_def)
qed

section \<open>The time grid\<close>

text \<open>
  C6 asks for every point of the grid to be strictly less than \<open>days\<close>, one point per
  day. The grid includes the end point: for \<open>days = 2\<close> it is \<open>[0, 2]\<close> and for
  \<open>days = 3\<close> it is \<open>[0, 3/2, 3]\<close>.
\<close>

theorem time_grid_includes_end_point:
  "map_sum id self_t (init 1000 2 (999, 1, 0, 0) example_params [0, 1]) = Inr [0, 2]
   \<and> map_sum id self_t (init 1000 3 (999, 1, 0, 0) example_params [0, 1, 2]) = Inr [0, 3 / 2, 3]"
  by (simp add: init_def bindE_def linspace_def Let_def upt_rec numeral_2_eq_2 numeral_3_eq_3)

section \<open>Calibration and intervention optimization\<close>

lemma getitem_Some: "ps k = Some v \<Longrightarrow> getitem ps k = Inr v"
  by (simp add: getitem_def)

lemma bindE_Inr: "bindE (Inr v) f = f v"
  by (simp add: bindE_def)

lemma bindE_Inl: "bindE (Inl e) f = Inl e"
  by (simp add: bindE_def)

lemma bindE_eq_Inr: "bindE r f = Inr y \<longleftrightarrow> (\<exists>v. r = Inr v \<and> f v = Inr y)"
  by (cases r) (simp_all add: bindE_def)

lemma getitem_eq_Inr: "getitem ps k = Inr v \<longleftrightarrow> ps k = Some v"
  by (simp add: getitem_def split: option.splits)

lemma example_deaths:
  "fitter (constant_solver c) example_model x 0 0 (4 / 10) (1 / 10) la lb (1 / 10) (2 / 100)
     = [0, 4 / 1000]"
  by (simp add: fitter_def constant_solver_def example_model_def euler_step_def deriv_def
      Let_def transposed_def row3_def)

text \<open>
  C3. For any candidate \<open>lockdown_a\<close>, \<open>lockdown_b\<close>, with the other six parameters
  read from the stored parameter set, \<open>optimizer\<close> returns one number: the last element
  of the Dead series that \<open>fitter\<close> returns for these eight values, whenever that series
  is not empty.
\<close>

theorem optimizer_final_deaths:
  assumes "self_params self ''beta_a'' = Some beta_a"
    and "self_params self ''beta_b'' = Some beta_b"
    and "self_params self ''beta_k'' = Some beta_k"
    and "self_params self ''slipthrough'' = Some slipthrough"
    and "self_params self ''gamma'' = Some gamma"
    and "self_params self ''rho'' = Some rho"
    and "fitter lib self x (val beta_a) (val beta_b) (val beta_k) (val slipthrough)
           lockdown_a lockdown_b (val gamma) (val rho) = dead"
    and "dead \<noteq> []"
  shows "optimizer lib self x lockdown_a lockdown_b = Inr (last dead)"
  using assms
  by (simp add: optimizer_def fitter_def getitem_Some bindE_Inr Let_def last_item_def)

text \<open>
  C3 on a two-point grid, integrated by Euler steps: the Dead series is
  \<open>[0, 4/1000]\<close> and \<open>optimizer\<close> returns \<open>4/1000\<close>.
\<close>

theorem optimizer_final_deaths_witness:
  "self_params example_model ''beta_a'' = Some (Float 0)
   \<and> self_params example_model ''rho'' = Some (Float (2 / 100))
   \<and> fitter (constant_solver 0) example_model [0, 2] 0 0 (4 / 10) (1 / 10) (3 / 10) 0
        (1 / 10) (2 / 100) = [0, 4 / 1000]
   \<and> optimizer (constant_solver 0) example_model [0, 2] (3 / 10) 0 = Inr (4 / 1000)"
proof -
  have p: "self_params example_model ''beta_a'' = Some (Float 0)"
    "self_params example_model ''beta_b'' = Some (Float 0)"
    "self_params example_model ''beta_k'' = Some (Float (4 / 10))"
    "self_params example_model ''slipthrough'' = Some (Float (1 / 10))"
    "self_params example_model ''gamma'' = Some (Float (1 / 10))"
    "self_params example_model ''rho'' = Some (Float (2 / 100))"
    by (simp_all add: example_model_def example_params_def)
  have d: "fitter (constant_solver 0) example_model [0, 2] (val (Float 0)) (val (Float 0))
      (val (Float (4 / 10))) (val (Float (1 / 10))) (3 / 10) 0 (val (Float (1 / 10)))
      (val (Float (2 / 100))) = [0, 4 / 1000]"
    using example_deaths [of 0 "[0, 2]" "3 / 10" 0] by simp
  have "optimizer (constant_solver 0) example_model [0, 2] (3 / 10) 0 = Inr (last [0, 4 / 1000])"
    by (rule optimizer_final_deaths [OF p d]) simp
  with p d show ?thesis
    by simp
qed

text \<open>
  C5. When the eight parameters are stored and the solver returns \<open>result\<close>, \<open>fit\<close>
  completes and the stored parameter set is \<open>result\<close> as a whole; the other fields of
  the model are as before.
\<close>

theorem fit_overwrites_params:
  assumes "self_params self ''beta_a'' = Some beta_a"
    and "self_params self ''beta_b'' = Some beta_b"
    and "self_params self ''beta_k'' = Some beta_k"
    and "self_params self ''slipthrough'' = Some slipthrough"
    and "self_params self ''lockdown_a'' = Some lockdown_a"
    and "self_params self ''lockdown_b'' = Some lockdown_b"
    and "self_params self ''gamma'' = Some gamma"
    and "self_params self ''rho'' = Some rho"
    and "model_fit lib (Model_fitter lib self) (self_fit_data self)
           (make_params lib (Model_fitter lib self)) (self_t self)
           [''beta_a'' \<mapsto> beta_a, ''beta_b'' \<mapsto> beta_b, ''beta_k'' \<mapsto> beta_k,
            ''slipthrough'' \<mapsto> slipthrough, ''lockdown_a'' \<mapsto> lockdown_a,
            ''lockdown_b'' \<mapsto> lockdown_b, ''gamma'' \<mapsto> gamma, ''rho'' \<mapsto> rho] = Inr result"
  shows "fit lib self = Inr (self\<lparr>self_params := result\<rparr>)"
  using assms
  by (simp add: fit_def Let_def getitem_Some bindE_Inr)

text \<open>
  C5 with a solver that answers \<open>1/2\<close> for each of the eight parameters.
\<close>

theorem fit_overwrites_params_witness:
  "fit (constant_solver (1 / 2)) example_model =
     Inr (example_model\<lparr>self_params := (\<lambda>k. if k \<in> set [''beta_a'', ''beta_b'', ''beta_k'',
       ''slipthrough'', ''lockdown_a'', ''lockdown_b'', ''gamma'', ''rho'']
       then Some (Parameter (1 / 2) None None) else None)\<rparr>)"
  by (rule fit_overwrites_params [where beta_a = "Float 0" and beta_b = "Float 0"
        and beta_k = "Float (4 / 10)" and slipthrough = "Float (1 / 10)"
        and lockdown_a = "Float 0" and lockdown_b = "Float 0" and gamma = "Float (1 / 10)"
        and rho = "Float (2 / 100)"])
     (simp_all add: example_model_def example_params_def constant_solver_def Model_fitter_def)

text \<open>
  What \<open>optimize\<close> stores does not depend on the solver: whenever it completes, the
  two intervention entries are the \<open>Parameter\<close> objects built before the solver was
  called, with value \<open>0.2\<close> and bounds 0 and 1, and every other entry is untouched.
\<close>

lemma optimize_Inr:
  assumes "optimize lib self = Inr self'"
  shows "self' = self\<lparr>self_params := (self_params self)
            (''lockdown_a'' \<mapsto> Parameter (2 / 10) (Some 0) (Some 1),
             ''lockdown_b'' \<mapsto> Parameter (2 / 10) (Some 0) (Some 1))\<rparr>"
  using assms
  by (auto simp add: optimize_def Let_def bindE_eq_Inr getitem_eq_Inr)

lemma optimize_success:
  assumes "self_params self ''lockdown_a'' = Some la"
    and "self_params self ''lockdown_b'' = Some lb"
    and "model_fit lib (Model_optimizer lib self) (self_fit_data self)
           [''lockdown_a'' \<mapsto> Parameter (2 / 10) (Some 0) (Some 1),
            ''lockdown_b'' \<mapsto> Parameter (2 / 10) (Some 0) (Some 1)]
           (self_t self) [''lockdown_a'' \<mapsto> la, ''lockdown_b'' \<mapsto> lb] = Inr result"
  shows "optimize lib self = Inr (self\<lparr>self_params := (self_params self)
            (''lockdown_a'' \<mapsto> Parameter (2 / 10) (Some 0) (Some 1),
             ''lockdown_b'' \<mapsto> Parameter (2 / 10) (Some 0) (Some 1))\<rparr>)"
  using assms
  by (simp add: optimize_def Let_def getitem_Some bindE_Inr getitem_def)

lemma example_optimize:
  "optimize (constant_solver c) example_model =
     Inr (example_model\<lparr>self_params := (self_params example_model)
            (''lockdown_a'' \<mapsto> Parameter (2 / 10) (Some 0) (Some 1),
             ''lockdown_b'' \<mapsto> Parameter (2 / 10) (Some 0) (Some 1))\<rparr>)"
  by (rule optimize_success [where la = "Float 0" and lb = "Float 0"])
     (simp_all add: example_model_def example_params_def constant_solver_def)

lemma optimize_frame:
  assumes "optimize lib self = Inr self'" and "k \<noteq> ''lockdown_a''" and "k \<noteq> ''lockdown_b''"
  shows "self_params self' k = self_params self k"
  using optimize_Inr [OF assms(1)] assms(2,3) by simp

text \<open>
  C4 asks for the two intervention entries to be overwritten with the fitted values.
  With a solver whose result is \<open>7/10\<close> for both, \<open>optimize\<close> stores the initial guess
  \<open>2/10\<close> for both.
\<close>

theorem optimize_stores_initial_guess:
  "map_sum id (\<lambda>r. (r ''lockdown_a'', r ''lockdown_b''))
     (model_fit (constant_solver (7 / 10))
        (Model_optimizer (constant_solver (7 / 10)) example_model)
        (self_fit_data example_model)
        [''lockdown_a'' \<mapsto> Parameter (2 / 10) (Some 0) (Some 1),
         ''lockdown_b'' \<mapsto> Parameter (2 / 10) (Some 0) (Some 1)]
        (self_t example_model) [''lockdown_a'' \<mapsto> Float 0, ''lockdown_b'' \<mapsto> Float 0])
     = Inr (Some (Parameter (7 / 10) None None), Some (Parameter (7 / 10) None None))
   \<and> map_sum id (\<lambda>self. (self_params self ''lockdown_a'', self_params self ''lockdown_b''))
       (optimize (constant_solver (7 / 10)) example_model)
     = Inr (Some (Parameter (2 / 10) (Some 0) (Some 1)),
            Some (Parameter (2 / 10) (Some 0) (Some 1)))"
  by (simp add: example_optimize) (simp add: constant_solver_def Model_optimizer_def)



end
